theory Spec2Isabelle
  imports Complex_Main "HOL-Library.Word"
begin

section \<open>JavaScript values\<close>

text \<open>
  A JavaScript string is a sequence of 16-bit code units. String literals of the source
  are ASCII and are written \<open>lit ''...''\<close>.
\<close>

type_synonym jstring = "16 word list"

definition lit :: "string \<Rightarrow> jstring" where
  "lit s = map of_char s"

text \<open>
  Numbers only occur as payload of values that come from the network or from storage;
  the source never computes with them. Their truthiness is all that is read.
\<close>

datatype jsnum = NaN | PosInf | NegInf | Fin rat

datatype jsval =
    JUndefined
  | JNull
  | JBool bool
  | JNum jsnum
  | JStr jstring
  | JArr "jsval list"
  | JObj "(jstring \<times> jsval) list"

text \<open>The truthiness test of \<open>&&\<close>, \<open>!\<close> and \<open>? :\<close>.\<close>

fun truthy :: "jsval \<Rightarrow> bool" where
  "truthy JUndefined = False"
| "truthy JNull = False"
| "truthy (JBool b) = b"
| "truthy (JNum n) = (n \<noteq> NaN \<and> n \<noteq> Fin 0)"
| "truthy (JStr s) = (s \<noteq> [])"
| "truthy (JArr xs) = True"
| "truthy (JObj kvs) = True"

text \<open>
  Reading one of the properties \<open>status\<close>, \<open>username\<close>, \<open>access_token\<close>, \<open>name\<close>:
  an object yields the stored value or \<open>undefined\<close>; arrays and primitive values have
  none of these properties. The source reads a property only of a value it has tested
  to be truthy, so the read never throws.
\<close>

fun property :: "jsval \<Rightarrow> jstring \<Rightarrow> jsval" where
  "property (JObj kvs) k = (case map_of kvs k of Some v \<Rightarrow> v | None \<Rightarrow> JUndefined)"
| "property v k = JUndefined"

text \<open>\<open>typeof v === 'string'\<close>\<close>

fun is_string :: "jsval \<Rightarrow> bool" where
  "is_string (JStr s) = True"
| "is_string v = False"

text \<open>
  \<open>String.prototype.trim\<close> removes white space and line terminators from both ends:
  TAB, LF, VT, FF, CR, SP, NBSP, U+1680, U+2000 to U+200A, U+2028, U+2029, U+202F,
  U+205F, U+3000 and U+FEFF.
\<close>

definition is_ws :: "16 word \<Rightarrow> bool" where
  "is_ws c = (c \<in> {9, 10, 11, 12, 13, 32, 160, 5760, 8232, 8233, 8239, 8287, 12288, 65279}
              \<or> (8192 \<le> c \<and> c \<le> 8202))"

definition trim :: "jstring \<Rightarrow> jstring" where
  "trim s = rev (dropWhile is_ws (rev (dropWhile is_ws s)))"

section \<open>The platform\<close>

text \<open>
  \<open>JSON.parse\<close> (\<open>None\<close> when it throws a SyntaxError), \<open>JSON.stringify\<close> and the
  conversion of a non-string value to a string that \<open>localStorage.setItem\<close> applies are
  functions of the browser; the model takes them as parameters.
\<close>

record platform =
  json_parse :: "jstring \<Rightarrow> jsval option"
  json_stringify :: "jsval \<Rightarrow> jstring"
  to_string :: "jsval \<Rightarrow> jstring"

definition String_js :: "platform \<Rightarrow> jsval \<Rightarrow> jstring" where
  "String_js P v = (case v of JStr s \<Rightarrow> s | _ \<Rightarrow> to_string P v)"

text \<open>
  The outcome of \<open>await axios.post(...)\<close>: the promise resolves with a response
  (\<open>res.status\<close>, \<open>res.data\<close>), which axios does for a 2xx status, or rejects with an
  error that carries the status of a response (\<open>err.response.status\<close>) or no response
  at all.
\<close>

datatype axios_outcome = Resolved nat jsval | Rejected "nat option"

section \<open>State\<close>

text \<open>The five \<open>useState\<close> cells of \<open>Login\<close>; \<open>googleToken\<close> is \<open>null\<close> or a string.\<close>

record login_state =
  error :: jstring
  isLoggingIn :: bool
  isRegistering :: bool
  displayName :: jstring
  googleToken :: "jstring option"

definition login_init :: login_state where
  "login_init = \<lparr> error = [], isLoggingIn = False, isRegistering = False,
                   displayName = [], googleToken = None \<rparr>"

text \<open>
  A handler that awaits a request is suspended at the \<open>await\<close>; what runs after the
  response is its continuation. The continuation of \<open>handleGoogleSuccess\<close> has captured
  \<open>credentialResponse.credential\<close>.
\<close>

datatype continuation = GoogleCont jstring | RegisterCont

text \<open>
  The world: the state of the mounted \<open>Login\<close>, the \<open>user\<close> cell of \<open>App\<close>,
  \<open>localStorage\<close>, and the requests posted to \<open>/auth/google\<close> that have not been
  answered, each with its body, its continuation and the mount of \<open>Login\<close> that issued it.
\<close>

record world =
  login :: login_state
  user :: jsval
  storage :: "jstring \<rightharpoonup> jstring"
  inflight :: "(jsval \<times> continuation \<times> nat) list"
  mount :: nat

section \<open>Login.jsx\<close>

text \<open>
  \<open>handleLoginSuccess\<close> runs inside the \<open>try\<close> of its two callers. Its writes to
  \<open>localStorage\<close> are taken to succeed, so it does not throw.
\<close>

definition handleLoginSuccess :: "platform \<Rightarrow> jsval \<Rightarrow> world \<Rightarrow> world" where
  "handleLoginSuccess P data w =
     (let safeUsername = (if is_string (property data (lit ''username''))
                          then property data (lit ''username'') else JStr (lit ''User''));
          st1 = (storage w)(lit ''access_token'' \<mapsto> String_js P (property data (lit ''access_token'')));
          userData = JObj [(lit ''name'', safeUsername),
                           (lit ''token'', property data (lit ''access_token''))];
          st2 = st1(lit ''user_data'' \<mapsto> json_stringify P userData)
      in w\<lparr> storage := st2, user := userData,
            login := (login w)\<lparr> isLoggingIn := False \<rparr> \<rparr>)"

text \<open>\<open>handleGoogleSuccess\<close> up to the \<open>await\<close>.\<close>

definition handleGoogleSuccess :: "jstring \<Rightarrow> world \<Rightarrow> world" where
  "handleGoogleSuccess credential w =
     w\<lparr> login := (login w)\<lparr> isLoggingIn := True, error := [] \<rparr>,
        inflight := inflight w @
          [(JObj [(lit ''token'', JStr credential)], GoogleCont credential, mount w)] \<rparr>"

text \<open>\<open>handleGoogleSuccess\<close> from the \<open>await\<close> on: the \<open>try\<close> body and the \<open>catch\<close>.\<close>

definition handleGoogleSuccess_resume ::
  "platform \<Rightarrow> jstring \<Rightarrow> axios_outcome \<Rightarrow> world \<Rightarrow> world" where
  "handleGoogleSuccess_resume P credential out w =
     (case out of
        Resolved code data \<Rightarrow>
          if truthy data \<and> property data (lit ''status'') = JStr (lit ''register_required'')
          then w\<lparr> login := (login w)\<lparr> googleToken := Some credential,
                                       isRegistering := True, isLoggingIn := False \<rparr> \<rparr>
          else if truthy data \<and> property data (lit ''status'') = JStr (lit ''login_success'')
          then handleLoginSuccess P data w
          else w\<lparr> login := (login w)\<lparr> error := lit ''Unexpected response from server.'',
                                       isLoggingIn := False \<rparr> \<rparr>
      | Rejected r \<Rightarrow>
          if r = Some 202
          then w\<lparr> login := (login w)\<lparr> error := lit ''Authentication failed with backend.'',
                                       isLoggingIn := False \<rparr> \<rparr>
          else w\<lparr> login := (login w)\<lparr> error := lit ''Authentication failed.'',
                                       isLoggingIn := False \<rparr> \<rparr>)"

text \<open>\<open>handleRegisterSubmit\<close> up to the \<open>await\<close>, with its early return.\<close>

definition handleRegisterSubmit :: "world \<Rightarrow> world" where
  "handleRegisterSubmit w =
     (if trim (displayName (login w)) = []
      then w\<lparr> login := (login w)\<lparr> error := lit ''Please enter a display name.'' \<rparr> \<rparr>
      else w\<lparr> login := (login w)\<lparr> isLoggingIn := True \<rparr>,
              inflight := inflight w @
                [(JObj [(lit ''token'', (case googleToken (login w) of
                                           None \<Rightarrow> JNull | Some t \<Rightarrow> JStr t)),
                        (lit ''name'', JStr (displayName (login w)))],
                  RegisterCont, mount w)] \<rparr>)"

definition handleRegisterSubmit_resume :: "platform \<Rightarrow> axios_outcome \<Rightarrow> world \<Rightarrow> world" where
  "handleRegisterSubmit_resume P out w =
     (case out of
        Resolved code data \<Rightarrow>
          if truthy data \<and> property data (lit ''status'') = JStr (lit ''login_success'')
          then handleLoginSuccess P data w
          else w\<lparr> login := (login w)\<lparr> error := lit ''Registration failed.'',
                                       isLoggingIn := False \<rparr> \<rparr>
      | Rejected r \<Rightarrow>
          w\<lparr> login := (login w)\<lparr> error := lit ''Registration failed.'',
                                  isLoggingIn := False \<rparr> \<rparr>)"

definition handleError :: "world \<Rightarrow> world" where
  "handleError w = w\<lparr> login := (login w)\<lparr> error := lit ''Google Login Failed'' \<rparr> \<rparr>"

text \<open>The \<open>onChange\<close> handler of the display-name input.\<close>

definition onChange :: "jstring \<Rightarrow> world \<Rightarrow> world" where
  "onChange v w =
     (if error (login w) \<noteq> []
      then w\<lparr> login := (login w)\<lparr> displayName := v, error := [] \<rparr> \<rparr>
      else w\<lparr> login := (login w)\<lparr> displayName := v \<rparr> \<rparr>)"

section \<open>App.jsx\<close>

text \<open>\<open>localStorage.getItem\<close> yields \<open>null\<close> for a key that is not stored.\<close>

definition getItem :: "(jstring \<rightharpoonup> jstring) \<Rightarrow> jstring \<Rightarrow> jsval" where
  "getItem st k = (case st k of None \<Rightarrow> JNull | Some s \<Rightarrow> JStr s)"

definition removeItem :: "(jstring \<rightharpoonup> jstring) \<Rightarrow> jstring \<Rightarrow> (jstring \<rightharpoonup> jstring)" where
  "removeItem st k = st(k := None)"

definition fresh :: "jsval \<Rightarrow> (jstring \<rightharpoonup> jstring) \<Rightarrow> world" where
  "fresh u st = \<lparr> login = login_init, user = u, storage = st, inflight = [], mount = 0 \<rparr>"

text \<open>
  Loading the page: the initialiser of the \<open>user\<close> cell reads the two keys, parses
  \<open>user_data\<close> when both are truthy, and removes both keys when the parse throws.
\<close>

definition App :: "platform \<Rightarrow> (jstring \<rightharpoonup> jstring) \<Rightarrow> world" where
  "App P st =
     (let token = getItem st (lit ''access_token'');
          storedUser = getItem st (lit ''user_data'')
      in if truthy token \<and> truthy storedUser
         then (case storedUser of
                 JStr s \<Rightarrow>
                   (case json_parse P s of
                      Some v \<Rightarrow> fresh v st
                    | None \<Rightarrow> fresh JNull (removeItem (removeItem st (lit ''access_token''))
                                                     (lit ''user_data'')))
               | _ \<Rightarrow> fresh JNull st)
         else fresh JNull st)"

definition handleLogout :: "world \<Rightarrow> world" where
  "handleLogout w =
     w\<lparr> storage := removeItem (removeItem (storage w) (lit ''access_token'')) (lit ''user_data''),
        user := JNull \<rparr>"

section \<open>Dashboard.jsx\<close>

text \<open>The name the navigation bar shows.\<close>

definition Dashboard_displayName :: "jsval \<Rightarrow> jstring" where
  "Dashboard_displayName u =
     (case property u (lit ''name'') of JStr s \<Rightarrow> s | _ \<Rightarrow> lit ''User'')"

section \<open>What is rendered, and the events\<close>

text \<open>
  \<open>App\<close> renders \<open>Dashboard\<close> when \<open>user\<close> is truthy and \<open>Login\<close> otherwise.
  \<open>Login\<close> renders the registration form when \<open>isRegistering\<close> and the
  \<open>GoogleLogin\<close> widget otherwise; the widget is given no \<open>disabled\<close> attribute,
  the submit button of the form is given \<open>disabled={isLoggingIn}\<close>.
\<close>

definition Dashboard_mounted :: "world \<Rightarrow> bool" where
  "Dashboard_mounted w = truthy (user w)"

definition widget_enabled :: "world \<Rightarrow> bool" where
  "widget_enabled w = (\<not> truthy (user w) \<and> \<not> isRegistering (login w))"

definition form_rendered :: "world \<Rightarrow> bool" where
  "form_rendered w = (\<not> truthy (user w) \<and> isRegistering (login w))"

definition submit_enabled :: "world \<Rightarrow> bool" where
  "submit_enabled w = (form_rendered w \<and> \<not> isLoggingIn (login w))"

datatype event =
    GoogleSuccess jstring
  | GoogleError
  | Change jstring
  | ClickSubmit
  | Response nat axios_outcome
  | Logout
  | Reload

definition resume :: "platform \<Rightarrow> continuation \<Rightarrow> axios_outcome \<Rightarrow> world \<Rightarrow> world" where
  "resume P k out w =
     (case k of
        GoogleCont credential \<Rightarrow> handleGoogleSuccess_resume P credential out w
      | RegisterCont \<Rightarrow> handleRegisterSubmit_resume P out w)"

text \<open>
  The answer to the \<open>i\<close>-th pending request runs its continuation. The state setters
  of a \<open>Login\<close> that has been unmounted since do nothing; \<open>localStorage\<close> and the
  \<open>setUser\<close> of \<open>App\<close> are written all the same.
\<close>

definition deliver :: "platform \<Rightarrow> nat \<Rightarrow> axios_outcome \<Rightarrow> world \<Rightarrow> world" where
  "deliver P i out w =
     (if i < length (inflight w)
      then (case inflight w ! i of
              (body, k, m) \<Rightarrow>
                (let w1 = w\<lparr> inflight := take i (inflight w) @ drop (Suc i) (inflight w) \<rparr>;
                     w2 = resume P k out w1
                 in if m = mount w then w2 else w2\<lparr> login := login w \<rparr>))
      else w)"

text \<open>
  An event of a control that is not rendered, or is disabled, cannot happen. \<open>Logout\<close>
  is the \<open>logout\<close> that \<open>Dashboard\<close> is given; the \<open>Login\<close> mounted afterwards starts
  from its initial state. \<open>Reload\<close> loads the page again over the same storage.
\<close>

definition step :: "platform \<Rightarrow> event \<Rightarrow> world \<Rightarrow> world" where
  "step P e w =
     (case e of
        GoogleSuccess credential \<Rightarrow> if widget_enabled w then handleGoogleSuccess credential w else w
      | GoogleError \<Rightarrow> if widget_enabled w then handleError w else w
      | Change v \<Rightarrow> if form_rendered w then onChange v w else w
      | ClickSubmit \<Rightarrow> if submit_enabled w then handleRegisterSubmit w else w
      | Response i out \<Rightarrow> deliver P i out w
      | Logout \<Rightarrow> if Dashboard_mounted w
                  then (handleLogout w)\<lparr> login := login_init, mount := Suc (mount w) \<rparr>
                  else w
      | Reload \<Rightarrow> App P (storage w))"

definition run :: "platform \<Rightarrow> event list \<Rightarrow> world \<Rightarrow> world" where
  "run P es w = foldl (\<lambda>w e. step P e w) w es"

text \<open>
  Both keys of the session are in storage; the user counts as authenticated when \<open>App\<close>
  mounts \<open>Dashboard\<close>.
\<close>

definition session_stored :: "world \<Rightarrow> bool" where
  "session_stored w =
     (storage w (lit ''access_token'') \<noteq> None \<and> storage w (lit ''user_data'') \<noteq> None)"

section \<open>A platform for the examples\<close>

text \<open>
  The examples below need the browser's functions at a few arguments only. This table
  agrees with \<open>JSON.parse\<close> on the session of Ada and on every string that is not JSON,
  with \<open>JSON.stringify\<close> on the three objects listed, and with the string conversion on
  objects.
\<close>

definition sample_platform :: platform where
  "sample_platform =
     \<lparr> json_parse = (\<lambda>s. if s = lit ''{\"name\":\"Ada\",\"token\":\"abc\"}''
                          then Some (JObj [(lit ''name'', JStr (lit ''Ada'')),
                                           (lit ''token'', JStr (lit ''abc''))])
                          else None),
       json_stringify = (\<lambda>v. if v = JObj [(lit ''name'', JStr (lit ''Ada'')),
                                            (lit ''token'', JStr (lit ''abc''))]
                              then lit ''{\"name\":\"Ada\",\"token\":\"abc\"}''
                              else if v = JObj [(lit ''name'', JStr (lit ''Ada'')),
                                                (lit ''token'', JStr [])]
                              then lit ''{\"name\":\"Ada\",\"token\":\"\"}''
                              else if v = JObj [(lit ''name'', JStr (lit ''User'')),
                                                (lit ''token'', JStr (lit ''abc''))]
                              then lit ''{\"name\":\"User\",\"token\":\"abc\"}''
                              else lit ''{}''),
       to_string = (\<lambda>v. lit ''[object Object]'') \<rparr>"

section \<open>String literals and trimming\<close>

lemma unat_of_char: "unat (of_char c :: 16 word) = of_char c"
proof -
  have "(of_char c :: nat) < 256" by simp
  also have "(256::nat) < 2 ^ LENGTH(16)" by simp
  finally have "(of_char c :: nat) < 2 ^ LENGTH(16)" .
  then have "unat (of_nat (of_char c) :: 16 word) = of_char c"
    by (simp add: unat_of_nat)
  then show ?thesis by (simp only: of_nat_of_char)
qed

lemma inj_of_char_word: "inj (of_char :: char \<Rightarrow> 16 word)"
proof (rule injI)
  fix c d :: char
  assume "(of_char c :: 16 word) = of_char d"
  then have "unat (of_char c :: 16 word) = unat (of_char d :: 16 word)" by simp
  then have "(of_char c :: nat) = of_char d" by (simp only: unat_of_char)
  then show "c = d" by simp
qed

lemma lit_eq_iff [simp]: "lit a = lit b \<longleftrightarrow> a = b"
  unfolding lit_def by (rule inj_map_eq_map [OF inj_of_char_word])

lemma lit_Nil_iff [simp]: "lit a = [] \<longleftrightarrow> a = []"
  by (simp add: lit_def)

lemma Nil_lit_iff [simp]: "[] = lit a \<longleftrightarrow> a = []"
  by (simp add: lit_def)

lemma dropWhile_all: "(\<forall>x\<in>set (dropWhile Q xs). Q x) \<longleftrightarrow> (\<forall>x\<in>set xs. Q x)"
  by (induction xs) auto

text \<open>\<open>!name.trim()\<close> holds exactly of the names made of white space only.\<close>

lemma trim_Nil_iff: "trim s = [] \<longleftrightarrow> (\<forall>c\<in>set s. is_ws c)"
  by (simp add: trim_def dropWhile_all)

lemmas handler_defs = handleGoogleSuccess_def handleGoogleSuccess_resume_def
  handleRegisterSubmit_def handleRegisterSubmit_resume_def handleLoginSuccess_def
  handleError_def onChange_def handleLogout_def

lemmas event_defs = run_def step_def deliver_def resume_def widget_enabled_def
  form_rendered_def submit_enabled_def Dashboard_mounted_def

lemmas app_defs = App_def fresh_def getItem_def removeItem_def login_init_def

section \<open>The first exchange\<close>

text \<open>
  Claim C1: every exchange response whose body holds an \<open>access_token\<close> string and a
  \<open>username\<close> string, whatever the HTTP status and also without a \<open>status\<close> field,
  leads to Authenticated with the session persisted.

  The source asks for \<open>status === 'login_success'\<close>. On the response of the test
  "handles direct token response successfully" of Login.test.jsx (status 200, body
  \<open>{access_token: 'valid_token', username: 'Test User'}\<close>) it sets the error
  "Unexpected response from server.", never calls \<open>setUser\<close> and stores nothing.
\<close>

theorem direct_token_response_unexpected:
  "run P [GoogleSuccess (lit ''fake_token''),
          Response 0 (Resolved 200 (JObj [(lit ''access_token'', JStr (lit ''valid_token'')),
                                          (lit ''username'', JStr (lit ''Test User''))]))]
      (App P Map.empty)
   = (fresh JNull Map.empty)
       \<lparr> login := login_init \<lparr> error := lit ''Unexpected response from server.'' \<rparr> \<rparr>"
  by (simp add: event_defs app_defs handler_defs)

text \<open>
  Claim C2: an exchange call that fails with HTTP 401 ends in Failed with a message of
  the "invalid credentials" category, distinct from the message of a network or server
  failure.

  The \<open>catch\<close> of the first call singles out status 202 and nothing else, and the
  \<open>catch\<close> of the second call looks at no status: a 401 and a request that got no
  response leave the same world behind, with the message "Authentication failed." after
  the first call and "Registration failed." after the second. The test
  "handles 401 Unauthorized" of Login.test.jsx expects
  "Authentication failed: Invalid credentials.".
\<close>

theorem unauthorized_same_as_network_failure:
  "run P [GoogleSuccess (lit ''fake_token''), Response 0 (Rejected (Some 401))] (App P Map.empty)
     = (fresh JNull Map.empty)\<lparr> login := login_init \<lparr> error := lit ''Authentication failed.'' \<rparr> \<rparr>
   \<and> run P [GoogleSuccess (lit ''fake_token''), Response 0 (Rejected None)] (App P Map.empty)
     = (fresh JNull Map.empty)\<lparr> login := login_init \<lparr> error := lit ''Authentication failed.'' \<rparr> \<rparr>
   \<and> handleRegisterSubmit_resume P (Rejected (Some 401)) w
     = w\<lparr> login := (login w)\<lparr> error := lit ''Registration failed.'', isLoggingIn := False \<rparr> \<rparr>
   \<and> handleRegisterSubmit_resume P (Rejected None) w
     = w\<lparr> login := (login w)\<lparr> error := lit ''Registration failed.'', isLoggingIn := False \<rparr> \<rparr>"
  by (simp add: event_defs app_defs handler_defs)

text \<open>
  Claim C3: when the first exchange resolves with a body whose \<open>status\<close> is
  \<open>"register_required"\<close>, the controller shows the registration form
  (\<open>isRegistering\<close>, no request in flight for it) and keeps the assertion in
  \<open>googleToken\<close>; neither the response nor typing a name posts a request; submitting
  posts nothing when the name trims to the empty string, and otherwise posts exactly
  \<open>{token: <the same assertion>, name: <the name as typed>}\<close>.
\<close>

theorem register_required_awaits_profile:
  assumes "truthy data"
    and "property data (lit ''status'') = JStr (lit ''register_required'')"
  shows "let w1 = handleGoogleSuccess_resume P credential (Resolved code data) w;
             w2 = handleRegisterSubmit (onChange name w1)
         in isRegistering (login w1) \<and> \<not> isLoggingIn (login w1)
            \<and> googleToken (login w1) = Some credential
            \<and> inflight w1 = inflight w \<and> user w1 = user w \<and> storage w1 = storage w
            \<and> inflight (onChange name w1) = inflight w
            \<and> googleToken (login (onChange name w1)) = Some credential
            \<and> inflight w2 =
                (if trim name = [] then inflight w
                 else inflight w @ [(JObj [(lit ''token'', JStr credential),
                                            (lit ''name'', JStr name)], RegisterCont, mount w)])"
  using assms by (simp add: handler_defs Let_def)

theorem register_required_awaits_profile_witness:
  "(let data = JObj [(lit ''status'', JStr (lit ''register_required''))];
        w1 = handleGoogleSuccess_resume sample_platform (lit ''tok-B'') (Resolved 200 data)
               (fresh JNull Map.empty);
        w2 = handleRegisterSubmit (onChange (lit ''Grace'') w1)
    in truthy data
       \<and> property data (lit ''status'') = JStr (lit ''register_required'')
       \<and> isRegistering (login w1) \<and> googleToken (login w1) = Some (lit ''tok-B'')
       \<and> inflight w1 = []
       \<and> inflight w2 = [(JObj [(lit ''token'', JStr (lit ''tok-B'')),
                                (lit ''name'', JStr (lit ''Grace''))], RegisterCont, 0)])"
  using register_required_awaits_profile
    [of "JObj [(lit ''status'', JStr (lit ''register_required''))]" sample_platform
        "lit ''tok-B''" 200 "fresh JNull Map.empty" "lit ''Grace''"]
  by (simp add: Let_def fresh_def trim_def lit_def is_ws_def)

section \<open>The registration form\<close>

text \<open>
  Claim C5: submitting a display name that consists of white space only (the empty name
  included) posts no request, leaves the form where it is (\<open>isRegistering\<close> and
  \<open>isLoggingIn\<close> unchanged) and sets the error "Please enter a display name."; a
  request is posted only for a name with a character that is not white space.
\<close>

theorem blank_name_rejected_locally:
  "if (\<forall>c\<in>set (displayName (login w)). is_ws c)
   then handleRegisterSubmit w
          = w\<lparr> login := (login w)\<lparr> error := lit ''Please enter a display name.'' \<rparr> \<rparr>
        \<and> inflight (handleRegisterSubmit w) = inflight w
        \<and> isRegistering (login (handleRegisterSubmit w)) = isRegistering (login w)
        \<and> isLoggingIn (login (handleRegisterSubmit w)) = isLoggingIn (login w)
        \<and> error (login (handleRegisterSubmit w)) \<noteq> []
   else inflight (handleRegisterSubmit w)
          = inflight w @ [(JObj [(lit ''token'', (case googleToken (login w) of
                                                   None \<Rightarrow> JNull | Some t \<Rightarrow> JStr t)),
                                 (lit ''name'', JStr (displayName (login w)))],
                           RegisterCont, mount w)]"
  by (simp add: handleRegisterSubmit_def trim_Nil_iff)

theorem blank_name_rejected_locally_witness:
  "(let w = (fresh JNull Map.empty)
              \<lparr> login := login_init \<lparr> isRegistering := True,
                                      googleToken := Some (lit ''tok-B''),
                                      displayName := [32, 9, 12288] \<rparr> \<rparr>
    in is_ws 32 \<and> is_ws 9 \<and> is_ws 12288
       \<and> inflight (handleRegisterSubmit w) = []
       \<and> isRegistering (login (handleRegisterSubmit w))
       \<and> \<not> isLoggingIn (login (handleRegisterSubmit w))
       \<and> error (login (handleRegisterSubmit w)) = lit ''Please enter a display name.'')"
  using blank_name_rejected_locally
    [of "(fresh JNull Map.empty)
           \<lparr> login := login_init \<lparr> isRegistering := True,
                                   googleToken := Some (lit ''tok-B''),
                                   displayName := [32, 9, 12288] \<rparr> \<rparr>"]
  by (simp add: Let_def fresh_def login_init_def is_ws_def)

lemma resume_inflight: "inflight (resume P k out w) = inflight w"
  by (cases k; cases out)
     (simp_all add: resume_def handleGoogleSuccess_resume_def handleRegisterSubmit_resume_def
        handleLoginSuccess_def Let_def)

lemma Response_posts_nothing:
  "length (inflight (step P (Response i out) w)) \<le> length (inflight w)"
  by (cases "inflight w ! i")
     (simp add: step_def deliver_def Let_def resume_inflight)

text \<open>
  Claim C6: when the second exchange resolves with a body whose \<open>status\<close> is
  \<open>"register_required"\<close>, the flow fails: the error "Registration failed." is set,
  \<open>setUser\<close> is not called, nothing is stored, and no request is posted. No answer to
  any request ever posts a request, so a third request needs a new click.
\<close>

theorem second_register_required_fails:
  assumes "truthy data"
    and "property data (lit ''status'') = JStr (lit ''register_required'')"
  shows "let w' = handleRegisterSubmit_resume P (Resolved code data) w
         in w' = w\<lparr> login := (login w)\<lparr> error := lit ''Registration failed.'',
                                         isLoggingIn := False \<rparr> \<rparr>
            \<and> error (login w') \<noteq> [] \<and> user w' = user w \<and> storage w' = storage w
            \<and> inflight w' = inflight w
            \<and> length (inflight (step P (Response i out) v)) \<le> length (inflight v)"
  using assms Response_posts_nothing [of P i out v] by (simp add: handler_defs Let_def)

theorem second_register_required_fails_witness:
  "(let data = JObj [(lit ''status'', JStr (lit ''register_required''))];
        w = run sample_platform
              [GoogleSuccess (lit ''tok-B''), Response 0 (Resolved 200 data),
               Change (lit ''Grace''), ClickSubmit]
              (App sample_platform Map.empty);
        w' = step sample_platform (Response 0 (Resolved 200 data)) w
    in truthy data
       \<and> property data (lit ''status'') = JStr (lit ''register_required'')
       \<and> length (inflight w) = 1
       \<and> error (login w') = lit ''Registration failed.''
       \<and> user w' = JNull \<and> storage w' = Map.empty \<and> inflight w' = [])"
  using second_register_required_fails
    [of "JObj [(lit ''status'', JStr (lit ''register_required''))]" sample_platform 200
        "run sample_platform
              [GoogleSuccess (lit ''tok-B''),
               Response 0 (Resolved 200 (JObj [(lit ''status'', JStr (lit ''register_required''))])),
               Change (lit ''Grace''), ClickSubmit]
              (App sample_platform Map.empty)"]
  by (simp add: Let_def event_defs app_defs handler_defs trim_def is_ws_def lit_def)

section \<open>Requests in flight\<close>

text \<open>
  Claim C7: while a request is in flight both triggering controls, the provider widget
  and the submit button of the registration form, are disabled, so that no second
  exchange request can be issued before the response to the pending one.

  The submit button is rendered with \<open>disabled={isLoggingIn}\<close>; the \<open>GoogleLogin\<close>
  widget stays rendered and enabled while \<open>isLoggingIn\<close>, with only the text
  "Authenticating..." added below it. A second credential from the widget posts a second
  request while the first is pending.
\<close>

theorem widget_enabled_while_exchanging:
  "widget_enabled (handleGoogleSuccess credential w) = widget_enabled w
   \<and> (let w = run P [GoogleSuccess (lit ''tok-A'')] (App P Map.empty)
      in isLoggingIn (login w) \<and> widget_enabled w \<and> length (inflight w) = 1)
   \<and> inflight (run P [GoogleSuccess (lit ''tok-A''), GoogleSuccess (lit ''tok-B'')]
                 (App P Map.empty))
       = [(JObj [(lit ''token'', JStr (lit ''tok-A''))], GoogleCont (lit ''tok-A''), 0),
          (JObj [(lit ''token'', JStr (lit ''tok-B''))], GoogleCont (lit ''tok-B''), 0)]"
  by (simp add: event_defs app_defs handler_defs)

section \<open>Login success\<close>

text \<open>
  Claim C8: for the assertion \<open>"tok-A"\<close> and the first exchange response
  \<open>{status: "login_success", access_token: "abc", username: "Ada"}\<close> the flow ends
  authenticated: \<open>App\<close> mounts \<open>Dashboard\<close> with the user \<open>{name: "Ada", token: "abc"}\<close>,
  \<open>access_token\<close> holds \<open>"abc"\<close>, \<open>user_data\<close> holds the JSON text of that user, and
  no request is pending, whatever the storage held before.
\<close>

theorem scenario_tok_A:
  "(let w = run P [GoogleSuccess (lit ''tok-A''),
                  Response 0 (Resolved code (JObj [(lit ''status'', JStr (lit ''login_success'')),
                                                   (lit ''access_token'', JStr (lit ''abc'')),
                                                   (lit ''username'', JStr (lit ''Ada''))]))]
                 (fresh JNull st)
    in Dashboard_mounted w
       \<and> user w = JObj [(lit ''name'', JStr (lit ''Ada'')), (lit ''token'', JStr (lit ''abc''))]
       \<and> storage w (lit ''access_token'') = Some (lit ''abc'')
       \<and> storage w (lit ''user_data'')
           = Some (json_stringify P (JObj [(lit ''name'', JStr (lit ''Ada'')),
                                           (lit ''token'', JStr (lit ''abc''))]))
       \<and> inflight w = [])"
  by (simp add: event_defs app_defs handler_defs String_js_def Let_def)

text \<open>
  Claim C9: when an exchange (the first or the second) resolves with \<open>status\<close>
  \<open>"login_success"\<close> and a \<open>username\<close> that is not a string (missing, \<open>null\<close>, a
  number, ...), \<open>App\<close> still mounts \<open>Dashboard\<close> and the user that is set and stored has
  the name \<open>"User"\<close>; \<open>Dashboard\<close> shows \<open>"User"\<close> for every user whose \<open>name\<close> is
  not a string.
\<close>

theorem username_fallback:
  assumes "truthy data"
    and "property data (lit ''status'') = JStr (lit ''login_success'')"
    and "\<not> is_string (property data (lit ''username''))"
    and "\<not> is_string (property u' (lit ''name''))"
  shows "let w' = resume P k (Resolved code data) w;
             u = JObj [(lit ''name'', JStr (lit ''User'')),
                       (lit ''token'', property data (lit ''access_token''))]
         in Dashboard_mounted w' \<and> user w' = u
            \<and> storage w' (lit ''access_token'')
                = Some (String_js P (property data (lit ''access_token'')))
            \<and> storage w' (lit ''user_data'') = Some (json_stringify P u)
            \<and> Dashboard_displayName u = lit ''User''
            \<and> Dashboard_displayName u' = lit ''User''"
proof -
  have "Dashboard_displayName u' = lit ''User''"
    using assms(4) by (cases "property u' (lit ''name'')") (simp_all add: Dashboard_displayName_def)
  then show ?thesis
    using assms(1-3)
    by (cases k)
       (simp_all add: resume_def handler_defs Dashboard_mounted_def Dashboard_displayName_def Let_def)
qed

theorem username_fallback_witness:
  "(let data = JObj [(lit ''status'', JStr (lit ''login_success'')),
                     (lit ''access_token'', JStr (lit ''abc'')),
                     (lit ''username'', JNum (Fin 42))];
        w' = resume sample_platform (GoogleCont (lit ''tok-A'')) (Resolved 200 data)
               (fresh JNull Map.empty)
    in truthy data
       \<and> property data (lit ''status'') = JStr (lit ''login_success'')
       \<and> property data (lit ''username'') = JNum (Fin 42)
       \<and> property (JObj [(lit ''token'', JStr (lit ''abc''))]) (lit ''name'') = JUndefined
       \<and> Dashboard_mounted w'
       \<and> user w' = JObj [(lit ''name'', JStr (lit ''User'')), (lit ''token'', JStr (lit ''abc''))]
       \<and> storage w' (lit ''user_data'') = Some (lit ''{\"name\":\"User\",\"token\":\"abc\"}'')
       \<and> Dashboard_displayName (JObj [(lit ''token'', JStr (lit ''abc''))]) = lit ''User'')"
  using username_fallback
    [of "JObj [(lit ''status'', JStr (lit ''login_success'')),
               (lit ''access_token'', JStr (lit ''abc'')),
               (lit ''username'', JNum (Fin 42))]"
        "JObj [(lit ''token'', JStr (lit ''abc''))]"
        sample_platform "GoogleCont (lit ''tok-A'')" 200 "fresh JNull Map.empty"]
  by (simp add: Let_def fresh_def sample_platform_def)

section \<open>The stored session\<close>

lemma handleLoginSuccess_session:
  "truthy (user (handleLoginSuccess P data w)) \<and> session_stored (handleLoginSuccess P data w)"
  by (simp add: handleLoginSuccess_def session_stored_def Let_def)

lemma handleLogout_session:
  "\<not> truthy (user (handleLogout w)) \<and> \<not> session_stored (handleLogout w)"
  by (simp add: handleLogout_def session_stored_def removeItem_def)

lemma handleLogout_removes_both:
  "user (handleLogout w) = JNull
   \<and> storage (handleLogout w) (lit ''access_token'') = None
   \<and> storage (handleLogout w) (lit ''user_data'') = None"
  by (simp add: handleLogout_def removeItem_def)

lemma App_storage:
  "storage (App P st) = st
   \<or> (\<exists>u. st (lit ''user_data'') = Some u \<and> json_parse P u = None)"
  by (auto simp: App_def fresh_def getItem_def Let_def split: option.splits)

lemma App_session: "truthy (user (App P st)) \<longrightarrow> session_stored (App P st)"
  by (auto simp: App_def fresh_def getItem_def session_stored_def Let_def
      split: option.splits jsval.splits)

lemma App_mounted_iff:
  "truthy (user (App P st)) \<longleftrightarrow>
     (\<exists>t u v. st (lit ''access_token'') = Some t \<and> t \<noteq> []
              \<and> st (lit ''user_data'') = Some u \<and> u \<noteq> []
              \<and> json_parse P u = Some v \<and> truthy v)"
  by (auto simp: App_def fresh_def getItem_def Let_def split: option.splits)

lemma resume_session:
  assumes "truthy (user w) \<longrightarrow> session_stored w"
  shows "truthy (user (resume P k out w)) \<longrightarrow> session_stored (resume P k out w)"
proof (cases out)
  case (Resolved code data)
  then show ?thesis
    using assms handleLoginSuccess_session [of P data w]
    by (cases k) (simp_all add: resume_def handleGoogleSuccess_resume_def
        handleRegisterSubmit_resume_def session_stored_def)
next
  case (Rejected r)
  then show ?thesis
    using assms
    by (cases k) (simp_all add: resume_def handleGoogleSuccess_resume_def
        handleRegisterSubmit_resume_def session_stored_def)
qed

lemma deliver_session:
  assumes "truthy (user w) \<longrightarrow> session_stored w"
  shows "truthy (user (deliver P i out w)) \<longrightarrow> session_stored (deliver P i out w)"
proof (cases "i < length (inflight w)")
  case False
  then show ?thesis using assms by (simp add: deliver_def)
next
  case True
  obtain body k m where e: "inflight w ! i = (body, k, m)" by (cases "inflight w ! i")
  let ?w1 = "w\<lparr> inflight := take i (inflight w) @ drop (Suc i) (inflight w) \<rparr>"
  have "truthy (user ?w1) \<longrightarrow> session_stored ?w1"
    using assms by (simp add: session_stored_def)
  then have "truthy (user (resume P k out ?w1)) \<longrightarrow> session_stored (resume P k out ?w1)"
    by (rule resume_session)
  then show ?thesis
    using True e by (simp add: deliver_def Let_def session_stored_def)
qed

lemma step_session:
  assumes "truthy (user w) \<longrightarrow> session_stored w"
  shows "truthy (user (step P e w)) \<longrightarrow> session_stored (step P e w)"
proof (cases e)
  case (Response i out)
  then show ?thesis using deliver_session [OF assms] by (simp add: step_def)
next
  case Reload
  then show ?thesis using App_session by (simp add: step_def)
qed (use assms in \<open>simp_all add: step_def handleGoogleSuccess_def handleError_def onChange_def
      handleRegisterSubmit_def handleLogout_def session_stored_def Dashboard_mounted_def\<close>)

lemma run_session:
  "truthy (user w) \<longrightarrow> session_stored w \<Longrightarrow>
   truthy (user (run P es w)) \<longrightarrow> session_stored (run P es w)"
proof (induction es arbitrary: w)
  case Nil
  then show ?case by (simp add: run_def)
next
  case (Cons e es)
  have "run P (e # es) w = run P es (step P e w)" by (simp add: run_def)
  then show ?case using Cons.IH [OF step_session [OF Cons.prems]] by simp
qed

text \<open>
  Claim C4: at every point of every execution the two keys of the session are in
  storage if and only if \<open>App\<close> mounts \<open>Dashboard\<close>.

  The source gives one direction at every point: whenever \<open>Dashboard\<close> is mounted,
  both keys are stored. \<open>handleLoginSuccess\<close> leaves both keys stored and \<open>Dashboard\<close>
  mounted; \<open>handleLogout\<close> removes each of the two keys and sets \<open>user\<close> to \<open>null\<close>.
  Loading the page mounts \<open>Dashboard\<close> exactly when both stored values are non-empty
  and \<open>user_data\<close> parses to a truthy value; in every other case it leaves \<open>Login\<close>
  mounted, and it changes storage only when the parse throws.
\<close>

theorem dashboard_implies_session_stored:
  "(Dashboard_mounted (run P es (App P st)) \<longrightarrow> session_stored (run P es (App P st)))
   \<and> Dashboard_mounted (handleLoginSuccess P data w)
   \<and> session_stored (handleLoginSuccess P data w)
   \<and> \<not> Dashboard_mounted (handleLogout w) \<and> \<not> session_stored (handleLogout w)
   \<and> user (handleLogout w) = JNull
   \<and> storage (handleLogout w) (lit ''access_token'') = None
   \<and> storage (handleLogout w) (lit ''user_data'') = None
   \<and> (Dashboard_mounted (App P st) \<longleftrightarrow>
        (\<exists>t u v. st (lit ''access_token'') = Some t \<and> t \<noteq> []
                 \<and> st (lit ''user_data'') = Some u \<and> u \<noteq> []
                 \<and> json_parse P u = Some v \<and> truthy v))
   \<and> (storage (App P st) = st
        \<or> (\<exists>u. st (lit ''user_data'') = Some u \<and> json_parse P u = None))"
  unfolding Dashboard_mounted_def
  using run_session [OF App_session, of P es P st] handleLoginSuccess_session [of P data w]
    handleLogout_session [of w] handleLogout_removes_both [of w] App_mounted_iff [of P st]
    App_storage [of P st]
  by blast

theorem dashboard_implies_session_stored_witness:
  "(let w = run sample_platform
              [GoogleSuccess (lit ''tok-A''),
               Response 0 (Resolved 200 (JObj [(lit ''status'', JStr (lit ''login_success'')),
                                               (lit ''access_token'', JStr (lit ''abc'')),
                                               (lit ''username'', JStr (lit ''Ada''))])),
               Reload]
              (App sample_platform Map.empty)
    in Dashboard_mounted w \<and> session_stored w
       \<and> user w = JObj [(lit ''name'', JStr (lit ''Ada'')), (lit ''token'', JStr (lit ''abc''))])"
  using dashboard_implies_session_stored
    [of sample_platform
        "[GoogleSuccess (lit ''tok-A''),
          Response 0 (Resolved 200 (JObj [(lit ''status'', JStr (lit ''login_success'')),
                                          (lit ''access_token'', JStr (lit ''abc'')),
                                          (lit ''username'', JStr (lit ''Ada''))])),
          Reload]"
        Map.empty]
  by (simp add: Let_def event_defs app_defs handler_defs String_js_def sample_platform_def
      session_stored_def)

text \<open>
  The equivalence of claim C4 fails after a reload: a login whose \<open>access_token\<close> is the
  empty string stores both keys, and the next page load finds the token falsy, leaves both
  keys in storage and mounts \<open>Login\<close>.
\<close>

theorem session_stored_not_authenticated:
  "(let w = run sample_platform
              [GoogleSuccess (lit ''tok-A''),
               Response 0 (Resolved 200 (JObj [(lit ''status'', JStr (lit ''login_success'')),
                                               (lit ''access_token'', JStr []),
                                               (lit ''username'', JStr (lit ''Ada''))])),
               Reload]
              (App sample_platform Map.empty)
    in session_stored w \<and> \<not> Dashboard_mounted w
       \<and> storage w (lit ''access_token'') = Some []
       \<and> storage w (lit ''user_data'') = Some (lit ''{\"name\":\"Ada\",\"token\":\"\"}'')
       \<and> user w = JNull)"
  by (simp add: Let_def event_defs app_defs handler_defs String_js_def sample_platform_def
      session_stored_def)

text \<open>
  Claim C10: at startup, if storage holds an \<open>access_token\<close> and a \<open>user_data\<close> and
  \<open>user_data\<close> is not valid JSON, both keys are removed and \<open>user\<close> is \<open>null\<close>.

  The source parses only when both values are truthy. With both values non-empty and a
  \<open>user_data\<close> that does not parse, both keys are removed; with an empty value the
  storage is left as it is. In both cases \<open>user\<close> is \<open>null\<close> and \<open>Login\<close> is mounted.
\<close>

theorem corrupted_session_startup:
  assumes "st (lit ''access_token'') = Some t"
    and "st (lit ''user_data'') = Some u"
    and "json_parse P u = None"
  shows "user (App P st) = JNull \<and> \<not> Dashboard_mounted (App P st)
         \<and> storage (App P st)
             = (if t \<noteq> [] \<and> u \<noteq> []
                then removeItem (removeItem st (lit ''access_token'')) (lit ''user_data'')
                else st)
         \<and> removeItem (removeItem st (lit ''access_token'')) (lit ''user_data'')
               (lit ''access_token'') = None
         \<and> removeItem (removeItem st (lit ''access_token'')) (lit ''user_data'')
               (lit ''user_data'') = None"
  using assms
  by (simp add: App_def fresh_def getItem_def removeItem_def Dashboard_mounted_def Let_def)

theorem corrupted_session_startup_witness:
  "(let st = [lit ''access_token'' \<mapsto> lit ''abc'', lit ''user_data'' \<mapsto> lit ''{oops''];
        w = App sample_platform st
    in st (lit ''access_token'') = Some (lit ''abc'')
       \<and> st (lit ''user_data'') = Some (lit ''{oops'')
       \<and> json_parse sample_platform (lit ''{oops'') = None
       \<and> user w = JNull
       \<and> storage w (lit ''access_token'') = None
       \<and> storage w (lit ''user_data'') = None)"
  using corrupted_session_startup
    [of "[lit ''access_token'' \<mapsto> lit ''abc'', lit ''user_data'' \<mapsto> lit ''{oops'']"
        "lit ''abc''" "lit ''{oops''" sample_platform]
  by (simp add: Let_def sample_platform_def removeItem_def)

text \<open>
  Claim C10 as stated fails when a stored value is the empty string: \<open>user_data\<close> is
  stored, the empty string is not valid JSON, and both keys stay in storage.
\<close>

theorem empty_user_data_not_removed:
  "(let st = [lit ''access_token'' \<mapsto> lit ''abc'', lit ''user_data'' \<mapsto> []];
        w = App sample_platform st
    in st (lit ''access_token'') = Some (lit ''abc'')
       \<and> st (lit ''user_data'') = Some []
       \<and> json_parse sample_platform [] = None
       \<and> storage w (lit ''access_token'') = Some (lit ''abc'')
       \<and> storage w (lit ''user_data'') = Some []
       \<and> user w = JNull)"
  by (simp add: Let_def app_defs sample_platform_def)

end
